theory Spec2Isabelle
  imports Main
begin

section \<open>The syntax tree\<close>

text \<open>
  The codemod \<^verbatim>\<open>src/from-ava-to-jest.ts\<close> rewrites a parsed TypeScript test file.
  A node is a tagged union over the syntactic kinds the six passes look at or build.
  Field order follows the node definitions of the parser (it is the order in which the
  tree query layer visits children):

  \<^item> \<open>Identifier name typeAnnotation\<close>
  \<^item> \<open>StringLiteral value\<close>, \<open>NumericLiteral value\<close>, \<open>BooleanLiteral value\<close>,
    \<open>NullLiteral\<close>: the literal nodes (all of them satisfy \<^verbatim>\<open>j.Literal.check\<close>;
    only the first has a value of JavaScript type string)
  \<^item> \<open>MemberExpression object property computed\<close>
  \<^item> \<open>CallExpression callee arguments\<close>
  \<^item> \<open>FunctionExpression id params body\<close>, \<open>ArrowFunctionExpression params body\<close>
  \<^item> \<open>ObjectExpression properties\<close>, \<open>ObjectProperty key value\<close>
  \<^item> \<open>TSAsExpression expression typeAnnotation\<close>
  \<^item> \<open>TSTypeReference typeName params\<close>, where \<open>params\<close> is \<open>None\<close> when the
    reference has no \<^verbatim>\<open>typeParameters\<close> and \<open>Some ps\<close> for \<^verbatim>\<open>typeParameters.params\<close>
  \<^item> \<open>TSTypeLiteral members\<close>, \<open>TSPropertySignature key typeAnnotation\<close>,
    \<open>TSTypeAnnotation typeAnnotation\<close>, \<open>TSKeyword name\<close> (\<^verbatim>\<open>number\<close>, \<^verbatim>\<open>string\<close>, ...)
  \<^item> \<open>TSTypeAliasDeclaration id typeAnnotation\<close>
  \<^item> \<open>ExpressionStatement expression\<close>, \<open>BlockStatement body\<close>
  \<^item> \<open>VariableDeclaration kind declarations\<close>, \<open>VariableDeclarator id init\<close>
  \<^item> \<open>ImportDeclaration specifiers source\<close>
  \<^item> \<open>ExportNamedDeclaration declaration\<close>: the form \<^verbatim>\<open>export <declaration>\<close>
  \<^item> \<open>Program body\<close>

  The type is untyped in the sense of the grammar: any node can stand in any slot, as in
  the JavaScript objects the passes mutate.
\<close>

datatype node =
    Identifier string "node option"
  | StringLiteral string
  | NumericLiteral int
  | BooleanLiteral bool
  | NullLiteral
  | MemberExpression node node bool
  | CallExpression node "node list"
  | FunctionExpression "node option" "node list" node
  | ArrowFunctionExpression "node list" node
  | ObjectExpression "node list"
  | ObjectProperty node node
  | TSAsExpression node node
  | TSTypeReference node "node list option"
  | TSTypeLiteral "node list"
  | TSPropertySignature node "node option"
  | TSTypeAnnotation node
  | TSKeyword string
  | TSTypeAliasDeclaration node node
  | ExpressionStatement node
  | BlockStatement "node list"
  | VariableDeclaration string "node list"
  | VariableDeclarator node "node option"
  | ImportDeclaration "node list" node
  | ExportNamedDeclaration node
  | Program "node list"

text \<open>The children of a node, in visiting order.\<close>

fun children :: "node \<Rightarrow> node list" where
  "children (Identifier n ta) = (case ta of None \<Rightarrow> [] | Some t \<Rightarrow> [t])"
| "children (StringLiteral s) = []"
| "children (NumericLiteral i) = []"
| "children (BooleanLiteral b) = []"
| "children NullLiteral = []"
| "children (MemberExpression obj prop c) = [obj, prop]"
| "children (CallExpression callee args) = callee # args"
| "children (FunctionExpression fid params body) =
     (case fid of None \<Rightarrow> [] | Some i \<Rightarrow> [i]) @ params @ [body]"
| "children (ArrowFunctionExpression params body) = params @ [body]"
| "children (ObjectExpression props) = props"
| "children (ObjectProperty k v) = [k, v]"
| "children (TSAsExpression e t) = [e, t]"
| "children (TSTypeReference tn ps) = tn # (case ps of None \<Rightarrow> [] | Some l \<Rightarrow> l)"
| "children (TSTypeLiteral ms) = ms"
| "children (TSPropertySignature k ta) = k # (case ta of None \<Rightarrow> [] | Some t \<Rightarrow> [t])"
| "children (TSTypeAnnotation t) = [t]"
| "children (TSKeyword s) = []"
| "children (TSTypeAliasDeclaration i t) = [i, t]"
| "children (ExpressionStatement e) = [e]"
| "children (BlockStatement body) = body"
| "children (VariableDeclaration k ds) = ds"
| "children (VariableDeclarator i init) = i # (case init of None \<Rightarrow> [] | Some e \<Rightarrow> [e])"
| "children (ImportDeclaration specs src) = specs @ [src]"
| "children (ExportNamedDeclaration d) = [d]"
| "children (Program body) = body"

text \<open>
  \<open>map_children f n\<close> rebuilds \<open>n\<close> with \<open>f\<close> applied to each child: the effect, on the
  tree, of callbacks that replace or mutate nodes below \<open>n\<close> and leave \<open>n\<close> itself alone.
\<close>

fun map_children :: "(node \<Rightarrow> node) \<Rightarrow> node \<Rightarrow> node" where
  "map_children f (Identifier n ta) = Identifier n (map_option f ta)"
| "map_children f (StringLiteral s) = StringLiteral s"
| "map_children f (NumericLiteral i) = NumericLiteral i"
| "map_children f (BooleanLiteral b) = BooleanLiteral b"
| "map_children f NullLiteral = NullLiteral"
| "map_children f (MemberExpression obj prop c) = MemberExpression (f obj) (f prop) c"
| "map_children f (CallExpression callee args) = CallExpression (f callee) (map f args)"
| "map_children f (FunctionExpression fid params body) =
     FunctionExpression (map_option f fid) (map f params) (f body)"
| "map_children f (ArrowFunctionExpression params body) =
     ArrowFunctionExpression (map f params) (f body)"
| "map_children f (ObjectExpression props) = ObjectExpression (map f props)"
| "map_children f (ObjectProperty k v) = ObjectProperty (f k) (f v)"
| "map_children f (TSAsExpression e t) = TSAsExpression (f e) (f t)"
| "map_children f (TSTypeReference tn ps) = TSTypeReference (f tn) (map_option (map f) ps)"
| "map_children f (TSTypeLiteral ms) = TSTypeLiteral (map f ms)"
| "map_children f (TSPropertySignature k ta) = TSPropertySignature (f k) (map_option f ta)"
| "map_children f (TSTypeAnnotation t) = TSTypeAnnotation (f t)"
| "map_children f (TSKeyword s) = TSKeyword s"
| "map_children f (TSTypeAliasDeclaration i t) = TSTypeAliasDeclaration (f i) (f t)"
| "map_children f (ExpressionStatement e) = ExpressionStatement (f e)"
| "map_children f (BlockStatement body) = BlockStatement (map f body)"
| "map_children f (VariableDeclaration k ds) = VariableDeclaration k (map f ds)"
| "map_children f (VariableDeclarator i init) = VariableDeclarator (f i) (map_option f init)"
| "map_children f (ImportDeclaration specs src) = ImportDeclaration (map f specs) (f src)"
| "map_children f (ExportNamedDeclaration d) = ExportNamedDeclaration (f d)"
| "map_children f (Program body) = Program (map f body)"

lemma size_list_member: "c \<in> set xs \<Longrightarrow> size (c::node) \<le> size_list size xs"
  by (induction xs) auto

lemma size_children [termination_simp]: "c \<in> set (children n) \<Longrightarrow> size c < size n"
  by (cases n) (auto split: option.splits simp: less_Suc_eq_le dest: size_list_member)

lemma map_children_cong [fundef_cong]:
  "n = m \<Longrightarrow> (\<And>c. c \<in> set (children m) \<Longrightarrow> f c = g c) \<Longrightarrow> map_children f n = map_children g m"
  by (cases m) (auto split: option.splits intro: option.map_cong)


text \<open>All nodes of a tree in the order in which \<^verbatim>\<open>find\<close> visits them (a node before its children).\<close>

fun preorder :: "node \<Rightarrow> node list" where
  "preorder n = n # concat (map preorder (children n))"

declare preorder.simps [simp del]

text \<open>The children that a node holds in a field of their own, not in an array.\<close>

fun single_children :: "node \<Rightarrow> node list" where
  "single_children (Identifier n ta) = (case ta of None \<Rightarrow> [] | Some t \<Rightarrow> [t])"
| "single_children (MemberExpression obj prop c) = [obj, prop]"
| "single_children (CallExpression callee args) = [callee]"
| "single_children (FunctionExpression fid params body) =
     (case fid of None \<Rightarrow> [] | Some i \<Rightarrow> [i]) @ [body]"
| "single_children (ArrowFunctionExpression params body) = [body]"
| "single_children (ObjectProperty k v) = [k, v]"
| "single_children (TSAsExpression e t) = [e, t]"
| "single_children (TSTypeReference tn ps) = [tn]"
| "single_children (TSPropertySignature k ta) = k # (case ta of None \<Rightarrow> [] | Some t \<Rightarrow> [t])"
| "single_children (TSTypeAnnotation t) = [t]"
| "single_children (TSTypeAliasDeclaration i t) = [i, t]"
| "single_children (ExpressionStatement e) = [e]"
| "single_children (VariableDeclarator i init) =
     i # (case init of None \<Rightarrow> [] | Some e \<Rightarrow> [e])"
| "single_children (ImportDeclaration specs src) = [src]"
| "single_children (ExportNamedDeclaration d) = [d]"
| "single_children n = []"

text \<open>
  \<open>name_of n\<close> is the JavaScript value \<^verbatim>\<open>n.name\<close>: a string on an identifier,
  \<^verbatim>\<open>undefined\<close> (\<open>None\<close>) on every other node of the type.
\<close>

fun name_of :: "node \<Rightarrow> string option" where
  "name_of (Identifier n ta) = Some n"
| "name_of n = None"

text \<open>\<^verbatim>\<open>xs[i]\<close>: \<open>None\<close> is \<^verbatim>\<open>undefined\<close>, the value of an index past the end.\<close>

definition nth_opt :: "'a list \<Rightarrow> nat \<Rightarrow> 'a option" where
  "nth_opt xs i = (if i < length xs then Some (xs ! i) else None)"

section \<open>Rule tables\<close>

definition SPECIAL_THROWS_CASE :: string where
  "SPECIAL_THROWS_CASE = ''(special throws case)''"

definition SPECIAL_BOOL :: string where
  "SPECIAL_BOOL = ''(special bool case)''"

definition SPECIAL_PLAN_CASE :: string where
  "SPECIAL_PLAN_CASE = ''(special plan case)''"

definition tPropertiesMap :: "(string \<times> string) list" where
  "tPropertiesMap =
    [(''ok'', ''toBeTruthy''),
     (''truthy'', ''toBeTruthy''),
     (''falsy'', ''toBeFalsy''),
     (''notOk'', ''toBeFalsy''),
     (''true'', SPECIAL_BOOL),
     (''false'', SPECIAL_BOOL),
     (''is'', ''toBe''),
     (''not'', ''not.toBe''),
     (''same'', ''toEqual''),
     (''deepEqual'', ''toEqual''),
     (''notSame'', ''not.toEqual''),
     (''notDeepEqual'', ''not.toEqual''),
     (''throws'', SPECIAL_THROWS_CASE),
     (''notThrows'', SPECIAL_THROWS_CASE),
     (''regex'', ''toMatch''),
     (''notRegex'', ''not.toMatch''),
     (''ifError'', ''toBeFalsy''),
     (''error'', ''toBeFalsy''),
     (''plan'', SPECIAL_PLAN_CASE),
     (''snapshot'', ''toMatchSnapshot'')]"

definition tPropertiesNotMapped :: "string set" where
  "tPropertiesNotMapped = {''end'', ''fail'', ''pass''}"

definition avaToJestLifecycleMethods :: "(string \<times> string) list" where
  "avaToJestLifecycleMethods =
    [(''before'', ''beforeAll''),
     (''after'', ''afterAll''),
     (''beforeEach'', ''beforeEach''),
     (''afterEach'', ''afterEach''),
     (''only'', ''test.only''),
     (''skip'', ''test.skip''),
     (''failing'', ''test.skip''),
     (''todo'', ''test.todo'')]"

text \<open>
  \<^verbatim>\<open>tPropertiesMap[oldPropertyName]\<close> is a property read on an object literal. It finds the
  object's own keys and, failing that, the properties every object inherits from
  \<^verbatim>\<open>Object.prototype\<close>, whose values are functions or objects, never strings and never
  \<^verbatim>\<open>undefined\<close>. A name that is \<^verbatim>\<open>undefined\<close> is read as the key \<^verbatim>\<open>"undefined"\<close>.
\<close>

datatype prop_value = Undefined | StringValue string | InheritedValue

definition object_prototype_keys :: "string list" where
  "object_prototype_keys =
    [''constructor'', ''hasOwnProperty'', ''isPrototypeOf'', ''propertyIsEnumerable'',
     ''toLocaleString'', ''toString'', ''valueOf'', ''__proto__'',
     ''__defineGetter__'', ''__defineSetter__'', ''__lookupGetter__'', ''__lookupSetter__'']"

definition js_key :: "string option \<Rightarrow> string" where
  "js_key n = (case n of None \<Rightarrow> ''undefined'' | Some s \<Rightarrow> s)"

definition tPropertiesMap_get :: "string option \<Rightarrow> prop_value" where
  "tPropertiesMap_get n =
    (case map_of tPropertiesMap (js_key n) of
       Some v \<Rightarrow> StringValue v
     | None \<Rightarrow> if js_key n \<in> set object_prototype_keys then InheritedValue else Undefined)"

section \<open>Node builders\<close>

text \<open>
  The builders \<^verbatim>\<open>j.identifier\<close>, \<^verbatim>\<open>j.callExpression\<close>, ... belong to the tree library, an
  external collaborator. A builder checks each argument against the declared type of
  the field and throws when it does not fit; the two misfits the assertion pass can
  produce are an argument list holding \<^verbatim>\<open>undefined\<close> and an identifier name that is not a
  string. The paths of the tree library throw too: \<^verbatim>\<open>insertBefore\<close> needs the node to be
  an element of an array. A throw is the value \<open>Inl\<close>; it leaves the pass and the whole run.
\<close>

datatype error = BuilderError string | PathError string

definition j_identifier :: "string \<Rightarrow> node" where
  "j_identifier n = Identifier n None"

definition j_callExpression :: "node \<Rightarrow> node option list \<Rightarrow> error + node" where
  "j_callExpression callee args =
    (case those args of
       None \<Rightarrow> Inl (BuilderError ''CallExpression.arguments'')
     | Some as \<Rightarrow> Inr (CallExpression callee as))"

definition j_memberExpression :: "node \<Rightarrow> node \<Rightarrow> node" where
  "j_memberExpression obj prop = MemberExpression obj prop False"

section \<open>Pass 5: assertions\<close>

text \<open>
  The filter of \<^verbatim>\<open>root.find(j.CallExpression, {callee: {object: {name: 't'}, property: ...}})\<close>:
  the callee has an \<^verbatim>\<open>object\<close> whose \<^verbatim>\<open>name\<close> is \<^verbatim>\<open>t\<close> and a \<^verbatim>\<open>property\<close> whose
  \<^verbatim>\<open>name\<close> is not in \<open>tPropertiesNotMapped\<close>.
\<close>

fun is_assertion_call :: "node \<Rightarrow> bool" where
  "is_assertion_call (CallExpression (MemberExpression obj prop c) args) =
     (name_of obj = Some ''t'' \<and>
      (case name_of prop of None \<Rightarrow> True | Some p \<Rightarrow> p \<notin> tPropertiesNotMapped))"
| "is_assertion_call n = False"

text \<open>
  The body of the \<^verbatim>\<open>forEach\<close> callback, on the old property name and the arguments of the
  matched call. It returns the node handed to \<^verbatim>\<open>replaceWith\<close> (\<open>None\<close> when the callback
  returns before it) and what it wrote with \<^verbatim>\<open>console.warn\<close>.
\<close>

definition expect_call :: "node option \<Rightarrow> error + node" where
  "expect_call a = j_callExpression (j_identifier ''expect'') [a]"

definition matcher_statement :: "node \<Rightarrow> string \<Rightarrow> node option list \<Rightarrow> error + node" where
  "matcher_statement e m margs =
    (case j_callExpression (j_memberExpression e (j_identifier m)) margs of
       Inl err \<Rightarrow> Inl err
     | Inr c \<Rightarrow> Inr (ExpressionStatement c))"

definition assertion_rewrite ::
  "string option \<Rightarrow> node list \<Rightarrow> error + (node option \<times> string list)" where
  "assertion_rewrite oldPropertyName args =
    (case tPropertiesMap_get oldPropertyName of
       Undefined \<Rightarrow>
         Inr (None, [''\"'' @ js_key oldPropertyName @ ''\" is currently not supported''])
     | InheritedValue \<Rightarrow>
         (case expect_call (nth_opt args 0) of
            Inl err \<Rightarrow> Inl err
          | Inr e \<Rightarrow> Inl (BuilderError ''Identifier.name''))
     | StringValue newPropertyName \<Rightarrow>
         (case
            (if newPropertyName = SPECIAL_BOOL then
               (case expect_call (nth_opt args 0) of
                  Inl err \<Rightarrow> Inl err
                | Inr e \<Rightarrow>
                    matcher_statement e
                      (if oldPropertyName = Some ''true'' then ''toBeTruthy'' else ''toBeFalsy'') [])
             else if newPropertyName = SPECIAL_PLAN_CASE then
               matcher_statement (j_identifier ''expect'') ''assertions'' [nth_opt args 0]
             else if newPropertyName = SPECIAL_THROWS_CASE then
               (case expect_call (Some (FunctionExpression None [] (BlockStatement []))) of
                  Inl err \<Rightarrow> Inl err
                | Inr e \<Rightarrow>
                    matcher_statement e
                      (if oldPropertyName = Some ''throws'' then ''toThrow'' else ''not.toThrow'')
                      (if length args > 1 then [nth_opt args 1] else []))
             else
               (case expect_call (nth_opt args 0) of
                  Inl err \<Rightarrow> Inl err
                | Inr e \<Rightarrow> matcher_statement e newPropertyName [nth_opt args 1]))
          of Inl err \<Rightarrow> Inl err
           | Inr newExpression \<Rightarrow> Inr (Some newExpression, [])))"

fun assertion_callback :: "node \<Rightarrow> error + (node option \<times> string list)" where
  "assertion_callback (CallExpression (MemberExpression obj prop c) args) =
     assertion_rewrite (name_of prop) args"
| "assertion_callback n = Inr (None, [])"


text \<open>
  The effect of the pass on the tree. \<^verbatim>\<open>find\<close> collects the paths of all matched calls
  before the first callback runs, and the callbacks run in visiting order, an outer call
  before the calls below it. \<^verbatim>\<open>replaceWith\<close> writes the new node into the slot of
  the old one. The new node of an outer call takes over the argument nodes
  \<^verbatim>\<open>args[0]\<close>, \<^verbatim>\<open>args[1]\<close> themselves, in a fresh argument array; the
  slots of the old array, where a later callback puts the replacement of an argument
  that is itself a matched call, are no longer part of the tree. So an argument taken
  over stays the node it was, and the replacements made below it (in its own slots) show:
  it becomes \<open>map_children updateAssertions_node\<close> of itself.
\<close>

fun updateAssertions_node :: "node \<Rightarrow> node" where
  "updateAssertions_node n =
     (if is_assertion_call n then
        (case n of CallExpression callee args \<Rightarrow>
           (case assertion_callback
                   (CallExpression callee (map (map_children updateAssertions_node) args)) of
              Inr (Some newExpression, w) \<Rightarrow> newExpression
            | _ \<Rightarrow> map_children updateAssertions_node n)
         | _ \<Rightarrow> map_children updateAssertions_node n)
      else map_children updateAssertions_node n)"

declare updateAssertions_node.simps [simp del]

text \<open>The callbacks in the order of the \<^verbatim>\<open>forEach\<close>: the first throw ends the pass.\<close>

fun run_callbacks :: "node list \<Rightarrow> error + string list" where
  "run_callbacks [] = Inr []"
| "run_callbacks (c # cs) =
     (case assertion_callback c of
        Inl err \<Rightarrow> Inl err
      | Inr (r, w) \<Rightarrow>
          (case run_callbacks cs of Inl err \<Rightarrow> Inl err | Inr ws \<Rightarrow> Inr (w @ ws)))"

definition updateAssertions :: "node \<Rightarrow> error + (node \<times> string list)" where
  "updateAssertions root =
    (case run_callbacks (filter is_assertion_call (preorder root)) of
       Inl err \<Rightarrow> Inl err
     | Inr ws \<Rightarrow> Inr (updateAssertions_node root, ws))"

section \<open>Pass 3: references to the shared context\<close>

fun is_t_context :: "node \<Rightarrow> bool" where
  "is_t_context (MemberExpression (Identifier obj ta) (Identifier prop tb) c) =
     (obj = ''t'' \<and> prop = ''context'')"
| "is_t_context n = False"

text \<open>
  \<^verbatim>\<open>replaceWith\<close> on every member expression \<^verbatim>\<open>t.context\<close>. Below a node that matches
  there are two identifiers and no member expression, so matches do not nest and the
  replacements do not meet.
\<close>

fun updateSharedContextReferences :: "node \<Rightarrow> node" where
  "updateSharedContextReferences n =
     (if is_t_context n then j_identifier ''sharedContext''
      else map_children updateSharedContextReferences n)"

declare updateSharedContextReferences.simps [simp del]

section \<open>Pass 4: test definitions\<close>

fun is_function :: "node \<Rightarrow> bool" where
  "is_function (ArrowFunctionExpression params body) = True"
| "is_function (FunctionExpression fid params body) = True"
| "is_function n = False"

fun params_of :: "node \<Rightarrow> node list" where
  "params_of (ArrowFunctionExpression params body) = params"
| "params_of (FunctionExpression fid params body) = params"
| "params_of n = []"

fun set_params :: "node list \<Rightarrow> node \<Rightarrow> node" where
  "set_params ps (ArrowFunctionExpression params body) = ArrowFunctionExpression ps body"
| "set_params ps (FunctionExpression fid params body) = FunctionExpression fid ps body"
| "set_params ps n = n"

text \<open>The callback of the pass on one node; nodes the filter does not match are left alone.\<close>

fun adjust_callback :: "node \<Rightarrow> node" where
  "adjust_callback (CallExpression callee args) =
     (if name_of callee = Some ''test'' \<and> length args > 1 \<and> is_function (args ! 1) then
        (if length (params_of (args ! 1)) > 0
         then CallExpression callee (args[1 := set_params [] (args ! 1)])
         else CallExpression callee args)
      else CallExpression callee args)"
| "adjust_callback n = n"

lemma size_set_params_Nil: "size (set_params [] f) \<le> size f"
  by (cases f) auto

lemma size_list_update_le:
  "i < length xs \<Longrightarrow> size (y::node) \<le> size (xs ! i) \<Longrightarrow> size_list size (xs[i := y]) \<le> size_list size xs"
  by (induction xs arbitrary: i) (auto split: nat.splits)

lemma size_adjust_callback: "size (adjust_callback n) \<le> size n"
  by (cases n) (auto intro!: size_list_update_le size_set_params_Nil)

lemma size_children_adjust [termination_simp]:
  "c \<in> set (children (adjust_callback n)) \<Longrightarrow> size c < size n"
  using size_children [of c "adjust_callback n"] size_adjust_callback [of n] by simp

text \<open>
  The callbacks mutate in place, an outer call before the calls below it, and what a
  callback does to a call does not change whether the filter matches a node below.
\<close>

fun adjustTestDefinitions :: "node \<Rightarrow> node" where
  "adjustTestDefinitions n = map_children adjustTestDefinitions (adjust_callback n)"

declare adjustTestDefinitions.simps [simp del]

section \<open>Pass 6: lifecycle hooks and modifiers\<close>

fun is_string_literal :: "node \<Rightarrow> bool" where
  "is_string_literal (StringLiteral s) = True"
| "is_string_literal n = False"

text \<open>
  \<open>strip_t\<close> is the last block of the callback: it reads \<^verbatim>\<open>path.node.arguments[1]\<close>
  (after the \<^verbatim>\<open>shift\<close>) and drops the first parameter of that function when it is named \<^verbatim>\<open>t\<close>.
\<close>

definition strip_t :: "node list \<Rightarrow> node list" where
  "strip_t args =
    (case nth_opt args 1 of
       None \<Rightarrow> args
     | Some callback \<Rightarrow>
         if is_function callback \<and> length (params_of callback) > 0
            \<and> name_of (params_of callback ! 0) = Some ''t''
         then args[1 := set_params (tl (params_of callback)) callback]
         else args)"

definition drop_title :: "node list \<Rightarrow> node list" where
  "drop_title args =
    (if length args > 0 \<and> is_string_literal (args ! 0) then tl args else args)"

fun lifecycle_callback :: "node \<Rightarrow> node" where
  "lifecycle_callback (CallExpression (MemberExpression obj prop c) args) =
     (if name_of obj = Some ''test'' then
        (case name_of prop of
           None \<Rightarrow> CallExpression (MemberExpression obj prop c) args
         | Some lifecycleMethod \<Rightarrow>
             (case map_of avaToJestLifecycleMethods lifecycleMethod of
                None \<Rightarrow> CallExpression (MemberExpression obj prop c) args
              | Some jestEquivalent \<Rightarrow>
                  CallExpression (j_identifier jestEquivalent) (strip_t (drop_title args))))
      else CallExpression (MemberExpression obj prop c) args)"
| "lifecycle_callback n = n"


lemma size_set_params_tl: "size (set_params (tl (params_of f)) f) \<le> size f"
  by (cases f; cases "params_of f") auto

lemma size_list_tl: "size_list size (tl xs) \<le> size_list (size :: node \<Rightarrow> nat) xs"
  by (cases xs) auto

lemma size_strip_t: "size_list size (strip_t args) \<le> size_list size args"
  by (auto simp: strip_t_def nth_opt_def split: option.splits
      intro!: size_list_update_le size_set_params_tl)

lemma size_drop_title: "size_list size (drop_title args) \<le> size_list size args"
  by (simp add: drop_title_def size_list_tl)

lemma size_named: "name_of n = Some s \<Longrightarrow> 0 < size n"
  by (cases n) auto

lemma size_lifecycle_callback: "size (lifecycle_callback n) \<le> size n"
proof (induction n rule: lifecycle_callback.induct)
  case (1 ob pr cm args)
  have "size_list size (strip_t (drop_title args)) \<le> size_list size args"
    using size_strip_t [of "drop_title args"] size_drop_title [of args] by linarith
  then show ?case
    by (auto simp: j_identifier_def split: option.splits dest: size_named)
qed auto

lemma size_children_lifecycle [termination_simp]:
  "c \<in> set (children (lifecycle_callback n)) \<Longrightarrow> size c < size n"
  using size_children [of c "lifecycle_callback n"] size_lifecycle_callback [of n] by simp

fun rewriteTestCallExpression :: "node \<Rightarrow> node" where
  "rewriteTestCallExpression n = map_children rewriteTestCallExpression (lifecycle_callback n)"

declare rewriteTestCallExpression.simps [simp del]


section \<open>Removing and inserting nodes\<close>

text \<open>
  Passes 1 and 2 remove nodes (\<^verbatim>\<open>prune\<close>, \<^verbatim>\<open>remove\<close>) and insert nodes beside a statement
  (\<^verbatim>\<open>insertBefore\<close>, \<^verbatim>\<open>insertAfter\<close>). Both act on the array that holds the node: a
  statement list or a declarator list. \<open>expand_children f n\<close> rebuilds \<open>n\<close>, each child \<open>c\<close>
  of an array giving way to the list \<open>f prev c\<close>, where \<open>prev\<close> are the children of \<open>n\<close>
  visited before \<open>c\<close>. A child held by a field of its own (not an array) is replaced when
  \<open>f\<close> returns one node and kept otherwise: import declarations and declarators do not
  stand in such fields in a parsed file, and for a variable declaration that does (after
  \<^verbatim>\<open>export\<close>) pass 2 does not get as far as the insertion.
\<close>

fun expand_list :: "(node list \<Rightarrow> node \<Rightarrow> node list) \<Rightarrow> node list \<Rightarrow> node list \<Rightarrow> node list" where
  "expand_list f prev [] = []"
| "expand_list f prev (x # xs) = f prev x @ expand_list f (prev @ [x]) xs"

definition expand_one :: "(node list \<Rightarrow> node \<Rightarrow> node list) \<Rightarrow> node list \<Rightarrow> node \<Rightarrow> node" where
  "expand_one f prev c = (case f prev c of [c'] \<Rightarrow> c' | _ \<Rightarrow> c)"

definition opt_list :: "'a option \<Rightarrow> 'a list" where
  "opt_list x = (case x of None \<Rightarrow> [] | Some y \<Rightarrow> [y])"

fun expand_children :: "(node list \<Rightarrow> node \<Rightarrow> node list) \<Rightarrow> node \<Rightarrow> node" where
  "expand_children f (Identifier n ta) = Identifier n (map_option (expand_one f []) ta)"
| "expand_children f (StringLiteral s) = StringLiteral s"
| "expand_children f (NumericLiteral i) = NumericLiteral i"
| "expand_children f (BooleanLiteral b) = BooleanLiteral b"
| "expand_children f NullLiteral = NullLiteral"
| "expand_children f (MemberExpression obj prop c) =
     MemberExpression (expand_one f [] obj) (expand_one f [obj] prop) c"
| "expand_children f (CallExpression callee args) =
     CallExpression (expand_one f [] callee) (expand_list f [callee] args)"
| "expand_children f (FunctionExpression fid params body) =
     FunctionExpression (map_option (expand_one f []) fid) (expand_list f (opt_list fid) params)
       (expand_one f (opt_list fid @ params) body)"
| "expand_children f (ArrowFunctionExpression params body) =
     ArrowFunctionExpression (expand_list f [] params) (expand_one f params body)"
| "expand_children f (ObjectExpression props) = ObjectExpression (expand_list f [] props)"
| "expand_children f (ObjectProperty k v) = ObjectProperty (expand_one f [] k) (expand_one f [k] v)"
| "expand_children f (TSAsExpression e t) = TSAsExpression (expand_one f [] e) (expand_one f [e] t)"
| "expand_children f (TSTypeReference tn ps) =
     TSTypeReference (expand_one f [] tn) (map_option (expand_list f [tn]) ps)"
| "expand_children f (TSTypeLiteral ms) = TSTypeLiteral (expand_list f [] ms)"
| "expand_children f (TSPropertySignature k ta) =
     TSPropertySignature (expand_one f [] k) (map_option (expand_one f [k]) ta)"
| "expand_children f (TSTypeAnnotation t) = TSTypeAnnotation (expand_one f [] t)"
| "expand_children f (TSKeyword s) = TSKeyword s"
| "expand_children f (TSTypeAliasDeclaration i t) =
     TSTypeAliasDeclaration (expand_one f [] i) (expand_one f [i] t)"
| "expand_children f (ExpressionStatement e) = ExpressionStatement (expand_one f [] e)"
| "expand_children f (BlockStatement body) = BlockStatement (expand_list f [] body)"
| "expand_children f (VariableDeclaration k ds) = VariableDeclaration k (expand_list f [] ds)"
| "expand_children f (VariableDeclarator i init) =
     VariableDeclarator (expand_one f [] i) (map_option (expand_one f [i]) init)"
| "expand_children f (ImportDeclaration specs src) =
     ImportDeclaration (expand_list f [] specs) (expand_one f specs src)"
| "expand_children f (ExportNamedDeclaration d) = ExportNamedDeclaration (expand_one f [] d)"
| "expand_children f (Program body) = Program (expand_list f [] body)"

lemma expand_list_cong:
  "(\<And>prev c. c \<in> set xs \<Longrightarrow> f prev c = g prev c) \<Longrightarrow> expand_list f prev xs = expand_list g prev xs"
  by (induction xs arbitrary: prev) auto

lemma expand_children_cong [fundef_cong]:
  "n = m \<Longrightarrow> (\<And>prev c. c \<in> set (children m) \<Longrightarrow> f prev c = g prev c)
     \<Longrightarrow> expand_children f n = expand_children g m"
  by (cases m)
     (auto simp: expand_one_def split: option.splits intro!: expand_list_cong option.map_cong)


section \<open>Pass 1: the import\<close>

text \<open>\<^verbatim>\<open>root.find(j.ImportDeclaration, {source: {value: 'ava'}})\<close> and \<^verbatim>\<open>prune\<close> on each path.\<close>

fun is_ava_import :: "node \<Rightarrow> bool" where
  "is_ava_import (ImportDeclaration specs (StringLiteral s)) = (s = ''ava'')"
| "is_ava_import n = False"

fun removeImport :: "node \<Rightarrow> node" where
  "removeImport n =
     expand_children (\<lambda>prev c. if is_ava_import c then [] else [removeImport c]) n"

declare removeImport.simps [simp del]

section \<open>Pass 2: the shared context\<close>

fun is_test_declarator :: "node \<Rightarrow> bool" where
  "is_test_declarator (VariableDeclarator i init) = (name_of i = Some ''test'')"
| "is_test_declarator n = False"

definition find_test_declarators :: "node \<Rightarrow> node list" where
  "find_test_declarators root = filter is_test_declarator (preorder root)"

text \<open>
  One object property per member of the form \<^verbatim>\<open>identifier: type\<close>, the others skipped.
  The alias is built from the first type parameter before the pass looks at its kind; a
  type parameter of a parsed reference is a type node, which the builder of the alias
  accepts.
\<close>

fun property_of_member :: "node \<Rightarrow> node option" where
  "property_of_member (TSPropertySignature (Identifier k tk) ta) =
     Some (ObjectProperty (j_identifier k) NullLiteral)"
| "property_of_member n = None"

definition sharedContextType :: "node \<Rightarrow> node" where
  "sharedContextType specificType =
     TSTypeAliasDeclaration (j_identifier ''SharedContextType'') specificType"

definition testVariableDeclaration :: "node list \<Rightarrow> node" where
  "testVariableDeclaration members =
     VariableDeclaration ''const''
       [VariableDeclarator
          (Identifier ''sharedContext''
             (Some (TSTypeAnnotation (TSTypeReference (j_identifier ''SharedContextType'') None))))
          (Some (ObjectExpression (List.map_filter property_of_member members)))]"

text \<open>
  Step 4 and the removal. \<^verbatim>\<open>testVariableDeclarator.closest(j.Statement)\<close> is, for every
  declarator found, the variable declaration that holds it; the type alias goes before
  each of these statements and the new declaration after it. Then the first declarator
  found (\<^verbatim>\<open>testVariableDeclarator.get()\<close>) is removed, and with it the declaration it
  leaves empty. \<open>armed\<close> says that the first declarator has not been met yet on the way
  to the node.

  \<^verbatim>\<open>insertBefore\<close> puts the new node into the array that holds the statement. A statement
  that is not an element of an array, as the declaration of
  \<^verbatim>\<open>export const test = ...\<close>, which is the \<^verbatim>\<open>declaration\<close> field of the export, has no
  such array: \<^verbatim>\<open>insertBefore\<close> throws, and the run ends.
\<close>

fun holds_test_declarator :: "node \<Rightarrow> bool" where
  "holds_test_declarator (VariableDeclaration k ds) = list_ex is_test_declarator ds"
| "holds_test_declarator n = False"

definition contains_test_declarator :: "node \<Rightarrow> bool" where
  "contains_test_declarator n = (find_test_declarators n \<noteq> [])"

definition statement_outside_array :: "node \<Rightarrow> bool" where
  "statement_outside_array root =
     list_ex (\<lambda>n. list_ex holds_test_declarator (single_children n)) (preorder root)"

fun after_prune :: "node \<Rightarrow> node list" where
  "after_prune (VariableDeclaration k []) = []"
| "after_prune n = [n]"

fun insert_and_remove :: "node \<Rightarrow> node \<Rightarrow> bool \<Rightarrow> node \<Rightarrow> node" where
  "insert_and_remove alias decl armed n =
     expand_children
       (\<lambda>prev c.
          let a = (armed \<and> \<not> list_ex contains_test_declarator prev) in
          if a \<and> is_test_declarator c then []
          else if holds_test_declarator c
            then [alias] @ after_prune (insert_and_remove alias decl a c) @ [decl]
            else [insert_and_remove alias decl a c])
       n"

declare insert_and_remove.simps [simp del]

definition generateSharedContext :: "node \<Rightarrow> error + (node \<times> string list)" where
  "generateSharedContext root =
    (case find_test_declarators root of
       [] \<Rightarrow> Inr (root, [''No test variable found.''])
     | testVariable # others \<Rightarrow>
        (case testVariable of
           VariableDeclarator i (Some (TSAsExpression e (TSTypeReference tn typeParameters))) \<Rightarrow>
             (case typeParameters of
                None \<Rightarrow> Inr (root, [''No type parameters found in TestFn.''])
              | Some [] \<Rightarrow> Inr (root, [''No type parameters found in TestFn.''])
              | Some (specificType # ps) \<Rightarrow>
                  (case specificType of
                     TSTypeLiteral members \<Rightarrow>
                       if statement_outside_array root then Inl (PathError ''insertBefore'')
                       else Inr (insert_and_remove (sharedContextType specificType)
                                   (testVariableDeclaration members) True root, [])
                   | _ \<Rightarrow> Inr (root, [''Invalid type literal.''])))
         | _ \<Rightarrow> Inr (root, [''No test variable foun or invalid type.''])))"

section \<open>The pipeline\<close>

text \<open>
  \<^verbatim>\<open>transformer\<close> up to the call of the printer: the six passes in order on the parsed
  tree. The result is the tree handed to the printer and the lines written to the
  console, or the error that ended the run.
\<close>

definition transformer :: "node \<Rightarrow> error + (node \<times> string list)" where
  "transformer root =
    (let r1 = removeImport root in
     case generateSharedContext r1 of
       Inl err \<Rightarrow> Inl err
     | Inr (r2, log2) \<Rightarrow>
        (let r3 = updateSharedContextReferences r2;
             r4 = adjustTestDefinitions r3
         in case updateAssertions r4 of
              Inl err \<Rightarrow> Inl err
            | Inr (r5, log5) \<Rightarrow> Inr (rewriteTestCallExpression r5, log2 @ log5)))"

section \<open>Kinds of node\<close>

text \<open>
  The grammar of the tree (the node definitions of the tree library, not part of this
  repository) says which kinds of node may stand where an expression is expected: the
  callee and the arguments of a call, the body of an arrow function without braces, the
  initializer of a declarator, the expression of an expression statement. Of the nodes
  of this development these are the expressions; the others are statements,
  declarators, properties and types.
\<close>

fun is_expression :: "node \<Rightarrow> bool" where
  "is_expression (Identifier n ta) = True"
| "is_expression (StringLiteral s) = True"
| "is_expression (NumericLiteral i) = True"
| "is_expression (BooleanLiteral b) = True"
| "is_expression NullLiteral = True"
| "is_expression (MemberExpression obj prop c) = True"
| "is_expression (CallExpression callee args) = True"
| "is_expression (FunctionExpression fid params body) = True"
| "is_expression (ArrowFunctionExpression params body) = True"
| "is_expression (ObjectExpression props) = True"
| "is_expression (TSAsExpression e t) = True"
| "is_expression n = False"

lemma replacement_is_statement:
  "assertion_callback n = Inr (Some new, w) \<Longrightarrow> \<exists>e. new = ExpressionStatement e"
  by (induction n rule: assertion_callback.induct)
     (auto simp: assertion_rewrite_def matcher_statement_def
           split: prop_value.splits sum.splits if_splits)


section \<open>Shapes named in the claims\<close>

text \<open>The number of statements at the top level of a file.\<close>

definition top_level_statements :: "node \<Rightarrow> nat" where
  "top_level_statements root = (case root of Program body \<Rightarrow> length body | _ \<Rightarrow> 0)"


text \<open>
  The context type \<^verbatim>\<open>{a: number, b: string}\<close>, the registration
  \<^verbatim>\<open>const test = e as TestFn<{a: number, b: string}>\<close>, and the two statements the
  extraction pass puts in its place:
  \<^verbatim>\<open>type SharedContextType = {a: number, b: string}\<close> and
  \<^verbatim>\<open>const sharedContext: SharedContextType = {a: null, b: null}\<close>.
\<close>

definition context_type_ab :: node where
  "context_type_ab =
     TSTypeLiteral
       [TSPropertySignature (Identifier ''a'' None) (Some (TSTypeAnnotation (TSKeyword ''number''))),
        TSPropertySignature (Identifier ''b'' None) (Some (TSTypeAnnotation (TSKeyword ''string'')))]"

definition test_registration :: "string \<Rightarrow> node \<Rightarrow> node \<Rightarrow> node" where
  "test_registration k e tn =
     VariableDeclaration k
       [VariableDeclarator (Identifier ''test'' None)
          (Some (TSAsExpression e (TSTypeReference tn (Some [context_type_ab]))))]"

definition shared_context_alias :: node where
  "shared_context_alias =
     TSTypeAliasDeclaration (Identifier ''SharedContextType'' None) context_type_ab"

definition shared_context_variable :: node where
  "shared_context_variable =
     VariableDeclaration ''const''
       [VariableDeclarator
          (Identifier ''sharedContext''
             (Some (TSTypeAnnotation (TSTypeReference (Identifier ''SharedContextType'' None) None))))
          (Some (ObjectExpression
             [ObjectProperty (Identifier ''a'' None) NullLiteral,
              ObjectProperty (Identifier ''b'' None) NullLiteral]))]"


text \<open>A test whose body reads the context: \<^verbatim>\<open>test('reads the context', (t) => { use(t.context.a) })\<close>.\<close>

definition sample_test_body :: node where
  "sample_test_body =
     ExpressionStatement
       (CallExpression (Identifier ''test'' None)
          [StringLiteral ''reads the context'',
           ArrowFunctionExpression [Identifier ''t'' None]
             (BlockStatement
                [ExpressionStatement
                   (CallExpression (Identifier ''use'' None)
                      [MemberExpression
                         (MemberExpression (Identifier ''t'' None) (Identifier ''context'' None) False)
                         (Identifier ''a'' None) False])])])"


text \<open>Two imports from the package: \<^verbatim>\<open>import anyTest from 'ava'\<close>, \<^verbatim>\<open>import { TestFn } from 'ava'\<close>.\<close>

definition import_anyTest :: node where
  "import_anyTest = ImportDeclaration [Identifier ''anyTest'' None] (StringLiteral ''ava'')"

definition import_TestFn :: node where
  "import_TestFn = ImportDeclaration [Identifier ''TestFn'' None] (StringLiteral ''ava'')"

text \<open>The statement built for \<^verbatim>\<open>throws\<close> and \<^verbatim>\<open>notThrows\<close>: the placeholder is \<^verbatim>\<open>function () {}\<close>.\<close>

definition throw_matcher :: "string \<Rightarrow> node list \<Rightarrow> node" where
  "throw_matcher methodName margs =
     ExpressionStatement
       (CallExpression
          (MemberExpression
             (CallExpression (Identifier ''expect'' None)
                [FunctionExpression None [] (BlockStatement [])])
             (Identifier methodName None) False)
          margs)"

text \<open>The exported registration \<^verbatim>\<open>export const test = anyTest as TestFn<{a: number, b: string}>\<close>.\<close>

definition exported_registration :: node where
  "exported_registration =
     ExportNamedDeclaration
       (test_registration ''const'' (Identifier ''anyTest'' None) (Identifier ''TestFn'' None))"

text \<open>
  A file with two registrations:
  \<^verbatim>\<open>var test = anyTest as TestFn<{a: number, b: string}>\<close>, twice.
\<close>

definition registration :: node where
  "registration = test_registration ''var'' (Identifier ''anyTest'' None) (Identifier ''TestFn'' None)"

definition two_registrations :: node where
  "two_registrations = Program [registration, registration]"

section \<open>Facts about the traversals\<close>

lemma list_ex_preorder:
  "list_ex P (preorder n) = (P n \<or> (\<exists>c\<in>set (children n). list_ex P (preorder c)))"
  by (subst preorder.simps) (auto simp: list_ex_iff)

lemma expand_list_id:
  "(\<And>prev c. c \<in> set xs \<Longrightarrow> f prev c = [c]) \<Longrightarrow> expand_list f prev xs = xs"
  by (induction xs arbitrary: prev) auto

lemma expand_children_id:
  "(\<And>prev c. c \<in> set (children n) \<Longrightarrow> f prev c = [c]) \<Longrightarrow> expand_children f n = n"
  by (cases n) (auto simp: expand_one_def expand_list_id split: option.splits intro!: option.map_ident_strong)

lemma removeImport_id: "\<not> list_ex is_ava_import (preorder n) \<Longrightarrow> removeImport n = n"
proof (induction n rule: removeImport.induct)
  case (1 n)
  have "expand_children (\<lambda>prev c. if is_ava_import c then [] else [removeImport c]) n = n"
  proof (rule expand_children_id)
    fix prev c assume c: "c \<in> set (children n)"
    with "1.prems" have nc: "\<not> list_ex is_ava_import (preorder c)"
      by (subst (asm) list_ex_preorder) auto
    then have "\<not> is_ava_import c" by (subst (asm) list_ex_preorder) auto
    with "1.IH" c nc show "(if is_ava_import c then [] else [removeImport c]) = [c]" by simp
  qed
  then show ?case by (subst removeImport.simps)
qed

lemma expand_list_filter:
  "expand_list (\<lambda>prev c. if P c then [] else [g c]) prev xs = map g (filter (\<lambda>c. \<not> P c) xs)"
  by (induction xs arbitrary: prev) auto

lemma expand_list_append:
  "expand_list f prev (xs @ ys) = expand_list f prev xs @ expand_list f (prev @ xs) ys"
  by (induction xs arbitrary: prev) auto

lemma contains_test_declarator_iff:
  "contains_test_declarator n = list_ex is_test_declarator (preorder n)"
  by (simp add: contains_test_declarator_def find_test_declarators_def filter_empty_conv list_ex_iff)

lemma contains_test_declarator_children:
  "contains_test_declarator n =
     (is_test_declarator n \<or> (\<exists>c\<in>set (children n). contains_test_declarator c))"
  unfolding contains_test_declarator_iff by (rule list_ex_preorder)

lemma is_test_contains: "is_test_declarator n \<Longrightarrow> contains_test_declarator n"
  by (subst contains_test_declarator_children) simp

lemma holds_contains: "holds_test_declarator n \<Longrightarrow> contains_test_declarator n"
  by (cases n)
     (auto simp: contains_test_declarator_children [of "VariableDeclaration k ds" for k ds]
        list_ex_iff intro: is_test_contains)

lemma insert_and_remove_id:
  "\<not> contains_test_declarator n \<Longrightarrow> insert_and_remove al d a n = n"
proof (induction al d a n rule: insert_and_remove.induct)
  case (1 al d armed n)
  show ?case
  proof (subst insert_and_remove.simps, rule expand_children_id)
    fix prev c assume c: "c \<in> set (children n)"
    with "1.prems" have nc: "\<not> contains_test_declarator c"
      by (subst (asm) contains_test_declarator_children) auto
    then have nt: "\<not> is_test_declarator c"
      by (subst (asm) contains_test_declarator_children) auto
    have nh: "\<not> holds_test_declarator c" using nc holds_contains by blast
    have "insert_and_remove al d (armed \<and> \<not> list_ex contains_test_declarator prev) c = c"
      using "1.IH"(2) [OF c refl] nt nh nc by blast
    then show "(let a = armed \<and> \<not> list_ex contains_test_declarator prev
           in if a \<and> is_test_declarator c then []
              else if holds_test_declarator c
                   then [al] @ after_prune (insert_and_remove al d a c) @ [d]
                   else [insert_and_remove al d a c]) = [c]"
      using nt nh by (simp add: Let_def)
  qed
qed


lemma children_map_children: "children (map_children f n) = map f (children n)"
  by (cases n) (auto split: option.splits)

lemma uSCR_Identifier:
  "updateSharedContextReferences x = Identifier s ta \<Longrightarrow>
     s = ''sharedContext'' \<or> (\<exists>tx. x = Identifier s tx)"
  by (subst (asm) updateSharedContextReferences.simps, cases x)
     (auto simp: j_identifier_def split: if_splits)

lemma is_t_context_map_uSCR:
  "is_t_context (map_children updateSharedContextReferences n) \<Longrightarrow> is_t_context n"
proof (cases n)
  case (MemberExpression ob pr cm)
  assume "is_t_context (map_children updateSharedContextReferences n)"
  then obtain ta tb where
    "updateSharedContextReferences ob = Identifier ''t'' ta"
    "updateSharedContextReferences pr = Identifier ''context'' tb"
    using MemberExpression
    by (auto elim!: is_t_context.elims)
  then show ?thesis using MemberExpression
    by (auto dest!: uSCR_Identifier)
qed auto

lemma no_t_context_after_update:
  "\<not> list_ex is_t_context (preorder (updateSharedContextReferences n))"
proof (induction n rule: updateSharedContextReferences.induct)
  case (1 n)
  show ?case
  proof (cases "is_t_context n")
    case True
    then show ?thesis
      by (subst updateSharedContextReferences.simps) (simp add: j_identifier_def preorder.simps)
  next
    case False
    then have "updateSharedContextReferences n = map_children updateSharedContextReferences n"
      by (subst updateSharedContextReferences.simps) simp
    moreover have "\<not> list_ex is_t_context (preorder (map_children updateSharedContextReferences n))"
      using False "1.IH"
      by (subst list_ex_preorder) (auto simp: children_map_children dest: is_t_context_map_uSCR)
    ultimately show ?thesis by simp
  qed
qed

lemma aTD_Identifier:
  "adjustTestDefinitions x = Identifier s ta \<Longrightarrow> \<exists>tx. x = Identifier s tx"
  by (subst (asm) adjustTestDefinitions.simps, cases x) (auto split: if_splits)

lemma occurs_set_params_Nil:
  "list_ex is_t_context (preorder (set_params [] f)) \<Longrightarrow> list_ex is_t_context (preorder f)"
  by (cases f) (auto simp: list_ex_preorder [of _ "ArrowFunctionExpression ps b" for ps b]
      list_ex_preorder [of _ "FunctionExpression i ps b" for i ps b])

lemma occurs_adjust_callback:
  "list_ex is_t_context (preorder (adjust_callback n)) \<Longrightarrow> list_ex is_t_context (preorder n)"
proof (cases n)
  case (CallExpression callee args)
  assume a: "list_ex is_t_context (preorder (adjust_callback n))"
  show ?thesis
  proof (cases "adjust_callback n = n")
    case True
    with a show ?thesis by simp
  next
    case False
    then have eq: "adjust_callback n = CallExpression callee (args[1 := set_params [] (args ! 1)])"
      and len: "1 < length args"
      using CallExpression by (auto split: if_splits)
    from a obtain c where c: "c = callee \<or> c \<in> set (args[1 := set_params [] (args ! 1)])"
      and oc: "list_ex is_t_context (preorder c)"
      unfolding eq by (subst (asm) list_ex_preorder) auto
    from c consider "c = callee" | "c \<in> set args" | "c = set_params [] (args ! 1)"
      using set_update_subset_insert [of args 1 "set_params [] (args ! 1)"] by auto
    then have "\<exists>c'\<in>set (callee # args). list_ex is_t_context (preorder c')"
    proof cases
      case 1 with oc show ?thesis by auto
    next
      case 2 with oc show ?thesis by auto
    next
      case 3
      with oc have "list_ex is_t_context (preorder (args ! 1))" by (auto dest: occurs_set_params_Nil)
      moreover have "args ! 1 \<in> set args" using len by simp
      ultimately show ?thesis by auto
    qed
    then show ?thesis unfolding CallExpression by (subst list_ex_preorder) auto
  qed
qed auto

lemma is_t_context_map_aTD:
  "is_t_context (map_children adjustTestDefinitions n) \<Longrightarrow> is_t_context n"
proof (cases n)
  case (MemberExpression ob pr cm)
  assume "is_t_context (map_children adjustTestDefinitions n)"
  then obtain ta tb where
    "adjustTestDefinitions ob = Identifier ''t'' ta"
    "adjustTestDefinitions pr = Identifier ''context'' tb"
    using MemberExpression
    by (auto elim!: is_t_context.elims)
  then show ?thesis using MemberExpression
    by (auto dest!: aTD_Identifier)
qed auto

lemma no_t_context_after_adjust:
  "\<not> list_ex is_t_context (preorder n) \<Longrightarrow>
   \<not> list_ex is_t_context (preorder (adjustTestDefinitions n))"
proof (induction n rule: adjustTestDefinitions.induct)
  case (1 n)
  have m: "\<not> list_ex is_t_context (preorder (adjust_callback n))"
    using "1.prems" occurs_adjust_callback by blast
  then have top: "\<not> is_t_context (adjust_callback n)"
    and ch: "\<And>c. c \<in> set (children (adjust_callback n)) \<Longrightarrow> \<not> list_ex is_t_context (preorder c)"
    by (subst (asm) list_ex_preorder; blast)+
  have "\<not> list_ex is_t_context (preorder (map_children adjustTestDefinitions (adjust_callback n)))"
    using top ch "1.IH"
    by (subst list_ex_preorder) (auto simp: children_map_children dest: is_t_context_map_aTD)
  then show ?case by (subst adjustTestDefinitions.simps)
qed


lemma find_test_declarators_children:
  "find_test_declarators n =
     (if is_test_declarator n then [n] else []) @ concat (map find_test_declarators (children n))"
  unfolding find_test_declarators_def
  by (subst preorder.simps) (simp add: filter_concat comp_def)

lemma find_none: "\<not> contains_test_declarator n \<Longrightarrow> find_test_declarators n = []"
  by (simp add: contains_test_declarator_def)

lemma find_none_list:
  "\<not> list_ex contains_test_declarator xs \<Longrightarrow> concat (map find_test_declarators xs) = []"
  by (auto simp: list_ex_iff find_none)

lemma find_in_registration:
  assumes "\<not> list_ex contains_test_declarator pre"
  shows "\<exists>others. find_test_declarators (Program (pre @ test_registration k e tn # post)) =
     VariableDeclarator (Identifier ''test'' None)
          (Some (TSAsExpression e (TSTypeReference tn (Some [context_type_ab])))) # others"
  by (simp add: find_none_list [OF assms]
      find_test_declarators_children [of "Program b" for b]
      find_test_declarators_children [of "VariableDeclaration k' ds" for k' ds]
      find_test_declarators_children [of "VariableDeclarator i' e'" for i' e']
      test_registration_def)

lemma insert_and_remove_registration:
  assumes "\<not> list_ex contains_test_declarator pre" and "\<not> list_ex contains_test_declarator post"
  shows "insert_and_remove al d True (Program (pre @ test_registration k e tn # post))
       = Program (pre @ al # d # post)"
proof -
  define f where "f =
       (\<lambda>prev c.
          let a = (True \<and> \<not> list_ex contains_test_declarator prev) in
          if a \<and> is_test_declarator c then []
          else if holds_test_declarator c
            then [al] @ after_prune (insert_and_remove al d a c) @ [d]
            else [insert_and_remove al d a c])"
  have unfold: "insert_and_remove al d True (Program body) = Program (expand_list f [] body)"
    for body
    unfolding f_def by (subst insert_and_remove.simps) (simp only: expand_children.simps)
  have same: "f prev c = [c]" if "\<not> contains_test_declarator c" for prev c
    using that is_test_contains [of c] holds_contains [of c] insert_and_remove_id [of c]
    unfolding f_def by (auto simp: Let_def)
  have reg: "insert_and_remove al d True (test_registration k e tn) = VariableDeclaration k []"
    by (subst insert_and_remove.simps) (simp add: test_registration_def)
  have "f pre (test_registration k e tn) = [al, d]"
    unfolding f_def using assms(1) reg by (simp add: Let_def test_registration_def)
  moreover have "expand_list f [] pre = pre"
    using assms(1) by (intro expand_list_id same) (auto simp: list_ex_iff)
  moreover have "expand_list f (pre @ [test_registration k e tn]) post = post"
    using assms(2) by (intro expand_list_id same) (auto simp: list_ex_iff)
  ultimately show ?thesis
    by (simp add: unfold expand_list_append)
qed


lemma alias_and_variable_fixed:
  "adjustTestDefinitions (updateSharedContextReferences shared_context_alias) = shared_context_alias"
  "adjustTestDefinitions (updateSharedContextReferences shared_context_variable)
     = shared_context_variable"
  "find_test_declarators shared_context_alias = []"
  "find_test_declarators shared_context_variable = []"
  by code_simp+

lemma passes_3_4_on_program:
  "adjustTestDefinitions (updateSharedContextReferences (Program body))
     = Program (map (\<lambda>s. adjustTestDefinitions (updateSharedContextReferences s)) body)"
  by (simp add: updateSharedContextReferences.simps [of "Program b" for b]
      adjustTestDefinitions.simps [of "Program b" for b] comp_def)

section \<open>The assertion pass on one call\<close>

lemmas builder_defs = expect_call_def matcher_statement_def j_callExpression_def
  j_identifier_def j_memberExpression_def nth_opt_def

lemmas special_defs = SPECIAL_BOOL_def SPECIAL_THROWS_CASE_def SPECIAL_PLAN_CASE_def

lemma table_names_not_excluded:
  "map_of tPropertiesMap name = Some mapped \<Longrightarrow> name \<notin> tPropertiesNotMapped"
  by (auto simp: tPropertiesMap_def tPropertiesNotMapped_def split: if_splits)

lemma throws_rewrite:
  "assertion_rewrite (Some ''throws'') args =
     Inr (Some (throw_matcher ''toThrow'' (if length args > 1 then [args ! 1] else [])), [])"
  "assertion_rewrite (Some ''notThrows'') args =
     Inr (Some (throw_matcher ''not.toThrow'' (if length args > 1 then [args ! 1] else [])), [])"
  by (simp_all add: assertion_rewrite_def tPropertiesMap_get_def js_key_def builder_defs
      tPropertiesMap_def special_defs throw_matcher_def)

text \<open>
  A name that is not excluded, not a key of the table and not inherited from
  \<^verbatim>\<open>Object.prototype\<close>: the callback warns once and returns, and the call stays (the pass
  goes on below it).
\<close>

lemma unmapped_name_reported:
  assumes "map_of tPropertiesMap name = None" and "name \<notin> set object_prototype_keys"
    and "name \<notin> tPropertiesNotMapped"
  shows "assertion_callback
           (CallExpression (MemberExpression (Identifier ''t'' ta) (Identifier name tb) c) args)
         = Inr (None, [''\"'' @ name @ ''\" is currently not supported''])"
    and "updateAssertions_node
           (CallExpression (MemberExpression (Identifier ''t'' ta) (Identifier name tb) c) args)
         = CallExpression
             (MemberExpression (Identifier ''t'' (map_option updateAssertions_node ta))
                (Identifier name (map_option updateAssertions_node tb)) c)
             (map updateAssertions_node args)"
  using assms
  by (simp_all add: assertion_rewrite_def tPropertiesMap_get_def js_key_def
      updateAssertions_node.simps [of "CallExpression x y" for x y]
      updateAssertions_node.simps [of "MemberExpression x y z" for x y z]
      updateAssertions_node.simps [of "Identifier x y" for x y])

text \<open>In a hook with a title, the callback is \<^verbatim>\<open>arguments[0]\<close> once the title is shifted out.\<close>

lemma titled_hook_keeps_parameters:
  "lifecycle_callback
     (CallExpression (MemberExpression (Identifier ''test'' ta) (Identifier ''before'' tb) c)
        [StringLiteral title, fn])
   = CallExpression (Identifier ''beforeAll'' None) [fn]"
  by (simp add: avaToJestLifecycleMethods_def drop_title_def strip_t_def nth_opt_def
      j_identifier_def)

section \<open>The passes on the expected shapes\<close>

text \<open>
  A call \<^verbatim>\<open>t.<name>(p, q)\<close> with a plainly renamed name, on its own: the callback builds
  the expression statement of \<^verbatim>\<open>expect(p).<mappedName>(q)\<close>, the arguments in order; a
  negated matcher is the identifier whose name is the dotted path (\<^verbatim>\<open>not.toBe\<close>).
\<close>

lemma plain_rename_conversion:
  assumes "map_of tPropertiesMap name = Some mapped"
    and "mapped \<noteq> SPECIAL_BOOL" and "mapped \<noteq> SPECIAL_THROWS_CASE"
    and "mapped \<noteq> SPECIAL_PLAN_CASE"
  shows "is_assertion_call
           (CallExpression (MemberExpression (Identifier ''t'' ta) (Identifier name tb) c) [p, q])
       \<and> assertion_callback
           (CallExpression (MemberExpression (Identifier ''t'' ta) (Identifier name tb) c) [p, q])
         = Inr (Some (ExpressionStatement
                  (CallExpression
                     (MemberExpression (CallExpression (Identifier ''expect'' None) [p])
                        (Identifier mapped None) False)
                     [q])), [])
       \<and> updateAssertions_node
           (CallExpression (MemberExpression (Identifier ''t'' ta) (Identifier name tb) c) [p, q])
         = ExpressionStatement
             (CallExpression
                (MemberExpression
                   (CallExpression (Identifier ''expect'' None)
                      [map_children updateAssertions_node p])
                   (Identifier mapped None) False)
                [map_children updateAssertions_node q])"
proof -
  have m: "is_assertion_call
      (CallExpression (MemberExpression (Identifier ''t'' ta) (Identifier name tb) c) [p, q])"
    using table_names_not_excluded [OF assms(1)] by simp
  have r: "assertion_rewrite (Some name) [x, y] =
      Inr (Some (ExpressionStatement
                  (CallExpression
                     (MemberExpression (CallExpression (Identifier ''expect'' None) [x])
                        (Identifier mapped None) False)
                     [y])), [])" for x y
    using assms by (simp add: assertion_rewrite_def tPropertiesMap_get_def js_key_def builder_defs)
  show ?thesis
    using m r by (simp add: updateAssertions_node.simps [of "CallExpression x y" for x y])
qed

text \<open>
  The calls \<^verbatim>\<open>t.throws(p)\<close>, \<^verbatim>\<open>t.throws(p, q)\<close> and the same for \<^verbatim>\<open>notThrows\<close>, on their
  own: the callback builds the expression statement of
  \<^verbatim>\<open>expect(function () {}).toThrow(...)\<close>, respectively \<^verbatim>\<open>.not.toThrow(...)\<close>, with the
  second argument of the old call when there is one. The first argument is not used.
\<close>

lemma throws_conversion:
  "assertion_callback
     (CallExpression (MemberExpression (Identifier ''t'' ta) (Identifier ''throws'' tb) c) (p # rest))
   = Inr (Some (throw_matcher ''toThrow'' (case rest of [] \<Rightarrow> [] | q # more \<Rightarrow> [q])), [])
 \<and> assertion_callback
     (CallExpression (MemberExpression (Identifier ''t'' ta) (Identifier ''notThrows'' tb) c) (p # rest))
   = Inr (Some (throw_matcher ''not.toThrow'' (case rest of [] \<Rightarrow> [] | q # more \<Rightarrow> [q])), [])
 \<and> updateAssertions_node
     (CallExpression (MemberExpression (Identifier ''t'' ta) (Identifier ''throws'' tb) c) (p # rest))
   = throw_matcher ''toThrow''
       (case rest of [] \<Rightarrow> [] | q # more \<Rightarrow> [map_children updateAssertions_node q])
 \<and> updateAssertions_node
     (CallExpression (MemberExpression (Identifier ''t'' ta) (Identifier ''notThrows'' tb) c) (p # rest))
   = throw_matcher ''not.toThrow''
       (case rest of [] \<Rightarrow> [] | q # more \<Rightarrow> [map_children updateAssertions_node q])"
  by (cases rest)
     (simp_all add: throws_rewrite tPropertiesNotMapped_def
        updateAssertions_node.simps [of "CallExpression x y" for x y])

text \<open>A member access \<^verbatim>\<open>t.context\<close> becomes the identifier \<^verbatim>\<open>sharedContext\<close>.\<close>

lemma context_access_replaced:
  "is_t_context n \<Longrightarrow> updateSharedContextReferences n = Identifier ''sharedContext'' None"
  by (subst updateSharedContextReferences.simps) (simp add: j_identifier_def)

text \<open>
  A file holds the registration \<^verbatim>\<open>test = e as TestFn<{a: number, b: string}>\<close> in a
  declaration of its own, as a statement of the top level, and no other declarator named
  \<^verbatim>\<open>test\<close>. The extraction pass puts the type alias and the variable \<^verbatim>\<open>sharedContext\<close>
  with the fields \<^verbatim>\<open>a: null, b: null\<close> in the place of the registration and writes
  nothing to the console. Passes 3 and 4 leave the two new statements as they are, and no
  member access \<^verbatim>\<open>t.context\<close> is left anywhere in the tree.
\<close>

lemma single_children_subset: "set (single_children n) \<subseteq> set (children n)"
  by (cases n) (auto split: option.splits)

lemma contains_from_child:
  "c \<in> set (children n) \<Longrightarrow> contains_test_declarator c \<Longrightarrow> contains_test_declarator n"
  by (subst contains_test_declarator_children) auto

lemma outside_array_contains:
  "list_ex (\<lambda>m. list_ex holds_test_declarator (single_children m)) (preorder n)
     \<Longrightarrow> contains_test_declarator n"
proof (induction n rule: preorder.induct)
  case (1 n)
  from "1.prems" consider "list_ex holds_test_declarator (single_children n)"
    | c where "c \<in> set (children n)"
        "list_ex (\<lambda>m. list_ex holds_test_declarator (single_children m)) (preorder c)"
    by (subst (asm) list_ex_preorder) auto
  then show ?case
  proof cases
    case 1
    then obtain c where "c \<in> set (single_children n)" "holds_test_declarator c"
      by (auto simp: list_ex_iff)
    then show ?thesis
      using single_children_subset [of n] holds_contains contains_from_child by blast
  next
    case 2
    then show ?thesis using "1.IH" contains_from_child by blast
  qed
qed

lemma registration_inside_array:
  assumes "\<not> list_ex contains_test_declarator pre" and "\<not> list_ex contains_test_declarator post"
    and "\<not> contains_test_declarator e" and "\<not> contains_test_declarator tn"
  shows "\<not> statement_outside_array (Program (pre @ test_registration k e tn # post))"
proof -
  let ?Q = "\<lambda>m. list_ex holds_test_declarator (single_children m)"
  have free: "\<not> list_ex ?Q (preorder c)" if "\<not> contains_test_declarator c" for c
    using that outside_array_contains by blast
  have ty: "\<not> list_ex ?Q (preorder context_type_ab)"
    by code_simp
  have he: "\<not> holds_test_declarator e" "\<not> holds_test_declarator tn"
    using assms(3,4) holds_contains by blast+
  have reg: "\<not> list_ex ?Q (preorder (test_registration k e tn))"
    using free [OF assms(3)] free [OF assms(4)] ty he
    by (simp add: test_registration_def
        list_ex_preorder [of _ "VariableDeclaration k' ds" for k' ds]
        list_ex_preorder [of _ "VariableDeclarator i' e'" for i' e']
        list_ex_preorder [of _ "Identifier i' e'" for i' e']
        list_ex_preorder [of _ "TSAsExpression i' e'" for i' e']
        list_ex_preorder [of _ "TSTypeReference i' e'" for i' e']
        context_type_ab_def [symmetric])
  have "\<not> list_ex ?Q (preorder c)" if "c \<in> set (pre @ test_registration k e tn # post)" for c
    using that assms(1,2) reg free by (auto simp: list_ex_iff)
  then show ?thesis
    unfolding statement_outside_array_def
    by (subst list_ex_preorder) auto
qed

lemma shared_context_extraction:
  assumes "\<not> list_ex contains_test_declarator pre" and "\<not> list_ex contains_test_declarator post"
    and "\<not> contains_test_declarator e" and "\<not> contains_test_declarator tn"
  shows "generateSharedContext (Program (pre @ test_registration k e tn # post))
           = Inr (Program (pre @ shared_context_alias # shared_context_variable # post), [])
       \<and> find_test_declarators
           (Program (pre @ shared_context_alias # shared_context_variable # post)) = []
       \<and> adjustTestDefinitions (updateSharedContextReferences
           (Program (pre @ shared_context_alias # shared_context_variable # post)))
         = Program (map (\<lambda>s. adjustTestDefinitions (updateSharedContextReferences s)) pre
                    @ shared_context_alias # shared_context_variable
                    # map (\<lambda>s. adjustTestDefinitions (updateSharedContextReferences s)) post)
       \<and> \<not> list_ex is_t_context (preorder
           (adjustTestDefinitions (updateSharedContextReferences
              (Program (pre @ shared_context_alias # shared_context_variable # post)))))"
proof -
  obtain others where f:
    "find_test_declarators (Program (pre @ test_registration k e tn # post)) =
       VariableDeclarator (Identifier ''test'' None)
          (Some (TSAsExpression e (TSTypeReference tn (Some [context_type_ab])))) # others"
    using find_in_registration [OF assms(1)] by blast
  have al: "sharedContextType context_type_ab = shared_context_alias"
    by (simp add: sharedContextType_def shared_context_alias_def j_identifier_def)
  have "generateSharedContext (Program (pre @ test_registration k e tn # post))
      = Inr (insert_and_remove shared_context_alias shared_context_variable True
           (Program (pre @ test_registration k e tn # post)), [])"
    unfolding generateSharedContext_def f
    by (simp add: al [unfolded context_type_ab_def] context_type_ab_def testVariableDeclaration_def
        shared_context_variable_def List.map_filter_simps j_identifier_def
        registration_inside_array [OF assms, unfolded context_type_ab_def])
  then have 1: "generateSharedContext (Program (pre @ test_registration k e tn # post))
           = Inr (Program (pre @ shared_context_alias # shared_context_variable # post), [])"
    by (simp add: insert_and_remove_registration [OF assms(1,2)])
  have 2: "find_test_declarators
           (Program (pre @ shared_context_alias # shared_context_variable # post)) = []"
    by (simp add: find_test_declarators_children [of "Program b" for b]
        find_none_list [OF assms(1)] find_none_list [OF assms(2)] alias_and_variable_fixed)
  have 3: "adjustTestDefinitions (updateSharedContextReferences
           (Program (pre @ shared_context_alias # shared_context_variable # post)))
         = Program (map (\<lambda>s. adjustTestDefinitions (updateSharedContextReferences s)) pre
                    @ shared_context_alias # shared_context_variable
                    # map (\<lambda>s. adjustTestDefinitions (updateSharedContextReferences s)) post)"
    by (simp add: passes_3_4_on_program alias_and_variable_fixed)
  have 4: "\<not> list_ex is_t_context (preorder
           (adjustTestDefinitions (updateSharedContextReferences
              (Program (pre @ shared_context_alias # shared_context_variable # post)))))"
    by (intro no_t_context_after_adjust no_t_context_after_update)
  show ?thesis using 1 2 3 4 by blast
qed

lemma shared_context_extraction_sample:
  "\<not> list_ex contains_test_declarator [sample_test_body]
 \<and> generateSharedContext
     (Program ([] @ test_registration ''const'' (Identifier ''anyTest'' None)
                      (Identifier ''TestFn'' None) # [sample_test_body]))
   = Inr (Program ([] @ shared_context_alias # shared_context_variable # [sample_test_body]), [])
 \<and> adjustTestDefinitions (updateSharedContextReferences
       (Program ([] @ shared_context_alias # shared_context_variable # [sample_test_body])))
   = Program
       [shared_context_alias, shared_context_variable,
        ExpressionStatement
          (CallExpression (Identifier ''test'' None)
             [StringLiteral ''reads the context'',
              ArrowFunctionExpression []
                (BlockStatement
                   [ExpressionStatement
                      (CallExpression (Identifier ''use'' None)
                         [MemberExpression (Identifier ''sharedContext'' None)
                            (Identifier ''a'' None) False])])])]"
proof -
  have h1: "\<not> list_ex contains_test_declarator []" by simp
  have h2: "\<not> list_ex contains_test_declarator [sample_test_body]" by code_simp
  have e: "adjustTestDefinitions (updateSharedContextReferences sample_test_body)
     = ExpressionStatement
          (CallExpression (Identifier ''test'' None)
             [StringLiteral ''reads the context'',
              ArrowFunctionExpression []
                (BlockStatement
                   [ExpressionStatement
                      (CallExpression (Identifier ''use'' None)
                         [MemberExpression (Identifier ''sharedContext'' None)
                            (Identifier ''a'' None) False])])])"
    by code_simp
  have h3: "\<not> contains_test_declarator (Identifier ''anyTest'' None)"
    "\<not> contains_test_declarator (Identifier ''TestFn'' None)"
    by code_simp+
  show ?thesis
    using shared_context_extraction [OF h1 h2 h3, of "''const''"] h2 e
    by simp
qed

section \<open>Claims\<close>

text \<open>
  C1. The claim asks that the pass replaces every call \<^verbatim>\<open>t.<name>(p, q)\<close> with a plainly
  renamed name by exactly \<^verbatim>\<open>expect(p).<mappedName>(q)\<close>. In the statement
  \<^verbatim>\<open>t.is(t.truthy(a, b), 1)\<close> both calls have this shape. The pass puts an expression
  statement around \<^verbatim>\<open>expect(...).toBe(1)\<close> where the outer call stood, not the call
  itself, and the inner call \<^verbatim>\<open>t.truthy(a, b)\<close> is still there after the pass.
\<close>

theorem nested_rename_left_unconverted:
  "updateAssertions
     (Program [ExpressionStatement
        (CallExpression (MemberExpression (Identifier ''t'' None) (Identifier ''is'' None) False)
           [CallExpression
              (MemberExpression (Identifier ''t'' None) (Identifier ''truthy'' None) False)
              [Identifier ''a'' None, Identifier ''b'' None],
            NumericLiteral 1])])
   = Inr (Program [ExpressionStatement
        (ExpressionStatement
           (CallExpression
              (MemberExpression
                 (CallExpression (Identifier ''expect'' None)
                    [CallExpression
                       (MemberExpression (Identifier ''t'' None) (Identifier ''truthy'' None)
                          False)
                       [Identifier ''a'' None, Identifier ''b'' None]])
                 (Identifier ''toBe'' None) False)
              [NumericLiteral 1]))], [])"
  by code_simp

text \<open>
  C6. The claim asks that the pass replaces every call \<^verbatim>\<open>t.throws(p)\<close> by
  \<^verbatim>\<open>expect(function () {}).toThrow()\<close>. In \<^verbatim>\<open>t.is(t.throws(fn).message, 'boom')\<close> the
  call \<^verbatim>\<open>t.throws(fn)\<close> is the object of a member access. After the pass the object is not
  that call but an expression statement around it, a statement where an expression is
  expected.
\<close>

theorem throws_replaced_by_statement:
  "updateAssertions
     (Program [ExpressionStatement
        (CallExpression (MemberExpression (Identifier ''t'' None) (Identifier ''is'' None) False)
           [MemberExpression
              (CallExpression
                 (MemberExpression (Identifier ''t'' None) (Identifier ''throws'' None) False)
                 [Identifier ''fn'' None])
              (Identifier ''message'' None) False,
            StringLiteral ''boom''])])
   = Inr (Program [ExpressionStatement
        (ExpressionStatement
           (CallExpression
              (MemberExpression
                 (CallExpression (Identifier ''expect'' None)
                    [MemberExpression
                       (ExpressionStatement
                          (CallExpression
                             (MemberExpression
                                (CallExpression (Identifier ''expect'' None)
                                   [FunctionExpression None [] (BlockStatement [])])
                                (Identifier ''toThrow'' None) False)
                             []))
                       (Identifier ''message'' None) False])
                 (Identifier ''toBe'' None) False)
              [StringLiteral ''boom'']))], [])
 \<and> \<not> is_expression
     (ExpressionStatement
        (CallExpression
           (MemberExpression
              (CallExpression (Identifier ''expect'' None)
                 [FunctionExpression None [] (BlockStatement [])])
              (Identifier ''toThrow'' None) False)
           []))"
  by code_simp

text \<open>
  C3. The claim asks that a call with a name outside the excluded set and outside the
  table stays as it is and is reported once. The name \<^verbatim>\<open>toString\<close> is such a name, and
  the call \<^verbatim>\<open>t.toString(p)\<close> is matched by the pass; but the table read returns the
  inherited function, the test for \<^verbatim>\<open>undefined\<close> fails, nothing is reported and the
  generic branch hands the function to the identifier builder, which ends the run.
\<close>

theorem inherited_name_not_reported:
  "''toString'' \<notin> tPropertiesNotMapped
 \<and> map_of tPropertiesMap ''toString'' = None
 \<and> is_assertion_call
     (CallExpression (MemberExpression (Identifier ''t'' None) (Identifier ''toString'' None) False)
        [Identifier ''p'' None])
 \<and> assertion_callback
     (CallExpression (MemberExpression (Identifier ''t'' None) (Identifier ''toString'' None) False)
        [Identifier ''p'' None])
   = Inl (BuilderError ''Identifier.name'')
 \<and> updateAssertions
     (Program [ExpressionStatement
        (CallExpression (MemberExpression (Identifier ''t'' None) (Identifier ''toString'' None) False)
           [Identifier ''p'' None])])
   = Inl (BuilderError ''Identifier.name'')"
  by (simp add: assertion_rewrite_def tPropertiesMap_get_def js_key_def builder_defs
      tPropertiesMap_def special_defs tPropertiesNotMapped_def object_prototype_keys_def
      updateAssertions_def preorder.simps)

text \<open>
  C10. The claim asks that the read of the second argument gives a node for every matched
  call. For the one-argument call \<^verbatim>\<open>t.truthy(p)\<close> the read \<^verbatim>\<open>args[1]\<close> is \<^verbatim>\<open>undefined\<close>;
  the generic branch puts it into the argument list of the matcher call, and the builder
  of the call refuses the list.
\<close>

theorem single_argument_rename_throws:
  "nth_opt [Identifier ''p'' None] 1 = None
 \<and> assertion_callback
     (CallExpression (MemberExpression (Identifier ''t'' None) (Identifier ''truthy'' None) False)
        [Identifier ''p'' None])
   = Inl (BuilderError ''CallExpression.arguments'')"
  by (simp add: assertion_rewrite_def tPropertiesMap_get_def js_key_def builder_defs
      tPropertiesMap_def special_defs)

text \<open>
  C2. The claim asks that \<^verbatim>\<open>test.before('title', fn)\<close> becomes \<^verbatim>\<open>beforeAll(fn)\<close> with the
  parameter \<^verbatim>\<open>t\<close> of \<^verbatim>\<open>fn\<close> removed. The callee is rewritten and the title dropped, but
  the callback is then looked for at index 1 of the shortened argument list, where there
  is nothing: \<^verbatim>\<open>fn\<close> keeps its parameter.
\<close>

theorem before_hook_keeps_parameter:
  "rewriteTestCallExpression
     (CallExpression (MemberExpression (Identifier ''test'' None) (Identifier ''before'' None) False)
        [StringLiteral ''title'',
         ArrowFunctionExpression [Identifier ''t'' None] (BlockStatement [])])
   = CallExpression (Identifier ''beforeAll'' None)
       [ArrowFunctionExpression [Identifier ''t'' None] (BlockStatement [])]"
  by code_simp

text \<open>
  C9. The claim asks that every node the assertion pass substitutes is well-formed in the
  place of the call it replaces. The pass always substitutes an expression statement. In
  \<^verbatim>\<open>xs.forEach((x) => t.is(x, 1))\<close> the matched call is the body of an arrow function, a
  place for an expression; after the pass the body is a statement.
\<close>

theorem statement_in_expression_slot:
  "is_expression
     (CallExpression (MemberExpression (Identifier ''t'' None) (Identifier ''is'' None) False)
        [Identifier ''x'' None, NumericLiteral 1])
 \<and> updateAssertions
     (ExpressionStatement
        (CallExpression (MemberExpression (Identifier ''xs'' None) (Identifier ''forEach'' None) False)
           [ArrowFunctionExpression [Identifier ''x'' None]
              (CallExpression (MemberExpression (Identifier ''t'' None) (Identifier ''is'' None) False)
                 [Identifier ''x'' None, NumericLiteral 1])]))
   = Inr (ExpressionStatement
        (CallExpression (MemberExpression (Identifier ''xs'' None) (Identifier ''forEach'' None) False)
           [ArrowFunctionExpression [Identifier ''x'' None]
              (ExpressionStatement
                 (CallExpression
                    (MemberExpression
                       (CallExpression (Identifier ''expect'' None) [Identifier ''x'' None])
                       (Identifier ''toBe'' None) False)
                    [NumericLiteral 1]))]), [])
 \<and> \<not> is_expression
     (ExpressionStatement
        (CallExpression
           (MemberExpression
              (CallExpression (Identifier ''expect'' None) [Identifier ''x'' None])
              (Identifier ''toBe'' None) False)
           [NumericLiteral 1]))"
  by code_simp



text \<open>
  C4. The claim asks that a file whose registration carries the context type
  \<^verbatim>\<open>{a: number, b: string}\<close> comes out of passes 2 to 4 with the alias, the variable
  \<^verbatim>\<open>sharedContext\<close> and no registration. In
  \<^verbatim>\<open>export const test = anyTest as TestFn<{a: number, b: string}>\<close> the statement of the
  declarator is the declaration field of the export, not an element of an array: the
  insertion of the alias throws, and there is no tree after pass 2.
\<close>

theorem exported_registration_throws:
  "generateSharedContext (Program [exported_registration, sample_test_body])
     = Inl (PathError ''insertBefore'')
 \<and> transformer (Program [import_anyTest, exported_registration, sample_test_body])
     = Inl (PathError ''insertBefore'')"
  by code_simp

text \<open>
  C8. The claim says that the import pass removes at most one statement. A file with two
  imports from the package loses both.
\<close>

theorem two_ava_imports_counterexample:
  "top_level_statements (Program [import_anyTest, import_TestFn, sample_test_body]) = 3
 \<and> top_level_statements
       (removeImport (Program [import_anyTest, import_TestFn, sample_test_body])) = 1"
  by code_simp

text \<open>
  C8, amended. In a file whose imports are statements of the top level, the import pass
  removes every import declaration whose source is the package, as many statements as
  there are such imports, and leaves all other statements as they are; when there is no
  such import the pass changes nothing, and so does a second run.
\<close>

theorem removeImport_all_ava_imports:
  "(\<forall>s\<in>set body. \<not> is_ava_import s \<longrightarrow> \<not> list_ex is_ava_import (preorder s)) \<longrightarrow>
     removeImport (Program body) = Program (filter (\<lambda>s. \<not> is_ava_import s) body)
   \<and> top_level_statements (removeImport (Program body)) + length (filter is_ava_import body)
       = top_level_statements (Program body)
   \<and> (\<not> list_ex is_ava_import body \<longrightarrow>
        removeImport (Program body) = Program body
      \<and> removeImport (removeImport (Program body)) = removeImport (Program body))"
proof
  assume h: "\<forall>s\<in>set body. \<not> is_ava_import s \<longrightarrow> \<not> list_ex is_ava_import (preorder s)"
  have "map removeImport (filter (\<lambda>s. \<not> is_ava_import s) body) = filter (\<lambda>s. \<not> is_ava_import s) body"
    using h by (intro map_idI) (auto simp: removeImport_id)
  then have eq: "removeImport (Program body) = Program (filter (\<lambda>s. \<not> is_ava_import s) body)"
    by (subst removeImport.simps) (simp add: expand_list_filter)
  have len: "length (filter (\<lambda>s. \<not> is_ava_import s) body) + length (filter is_ava_import body) = length body"
    using sum_length_filter_compl [of is_ava_import body] by simp
  have noop: "removeImport (Program body) = Program body" if "\<not> list_ex is_ava_import body"
    using that eq by (simp add: list_ex_iff)
  show "removeImport (Program body) = Program (filter (\<lambda>s. \<not> is_ava_import s) body)
   \<and> top_level_statements (removeImport (Program body)) + length (filter is_ava_import body)
       = top_level_statements (Program body)
   \<and> (\<not> list_ex is_ava_import body \<longrightarrow>
        removeImport (Program body) = Program body
      \<and> removeImport (removeImport (Program body)) = removeImport (Program body))"
    using eq len noop by (simp add: top_level_statements_def)
qed

theorem removeImport_all_ava_imports_witness:
  "removeImport (Program [import_anyTest, import_TestFn, sample_test_body])
     = Program [sample_test_body]
 \<and> removeImport (Program [sample_test_body]) = Program [sample_test_body]"
proof -
  have h1: "\<forall>s\<in>set [import_anyTest, import_TestFn, sample_test_body].
      \<not> is_ava_import s \<longrightarrow> \<not> list_ex is_ava_import (preorder s)"
    by code_simp
  have h2: "\<forall>s\<in>set [sample_test_body].
      \<not> is_ava_import s \<longrightarrow> \<not> list_ex is_ava_import (preorder s)"
    by code_simp
  have i: "is_ava_import import_anyTest" "is_ava_import import_TestFn"
    "\<not> is_ava_import sample_test_body"
    by code_simp+
  show ?thesis
    using removeImport_all_ava_imports [of "[import_anyTest, import_TestFn, sample_test_body]"]
      removeImport_all_ava_imports [of "[sample_test_body]"] h1 h2 i
    by simp
qed

text \<open>
  C7. The claim asks that a second run of the six passes leaves the output of the first
  run as it is. On a file with two registrations the extraction pass puts the alias and
  the new variable around both and removes the first registration only; the second run
  finds the registration that is left and rewrites the tree again.
\<close>

theorem second_run_changes_tree:
  "transformer two_registrations
     = Inr (Program [shared_context_alias, shared_context_variable,
                     shared_context_alias, registration, shared_context_variable], [])
 \<and> transformer (Program [shared_context_alias, shared_context_variable,
                     shared_context_alias, registration, shared_context_variable])
     = Inr (Program [shared_context_alias, shared_context_variable,
                     shared_context_alias, shared_context_alias, shared_context_variable,
                     shared_context_variable], [])
 \<and> Program [shared_context_alias, shared_context_variable,
             shared_context_alias, registration, shared_context_variable]
     \<noteq> Program [shared_context_alias, shared_context_variable,
                shared_context_alias, shared_context_alias, shared_context_variable,
                shared_context_variable]"
  by code_simp

end
